theory Spec2Isabelle
  imports Main "HOL-Library.Word" "HOL-Library.Signed_Division"
begin

unbundle bit_operations_syntax

section \<open>Minimal Color Picker: the program\<close>

text \<open>
  A shallow embedding of \<^verbatim>\<open>windows_color_picker.c\<close>. C \<^verbatim>\<open>int\<close> values are HOL
  integers: every value the program computes from its constants stays far below
  \<open>2 ^ 31\<close>, and screen coordinates are taken in the range where the additions of
  \<^verbatim>\<open>clamp_to_monitor\<close> cannot overflow. C's \<^verbatim>\<open>/\<close> and \<^verbatim>\<open>%\<close> truncate towards
  zero: they are \<open>sdiv\<close> and \<open>smod\<close>. The frame buffer is the byte list behind
  \<^verbatim>\<open>g_bits\<close>. Calls into the operating system are results or functions supplied
  by the environment.
\<close>

subsection \<open>Constants\<close>

definition kRadius :: int where "kRadius = 120"
definition kDiameter :: int where "kDiameter = 240"
definition kZoom :: int where "kZoom = 8"
definition kBorderWidth :: int where "kBorderWidth = 2"
definition kTickMs :: int where "kTickMs = 16"
definition kOffsetX :: int where "kOffsetX = 40"
definition kOffsetY :: int where "kOffsetY = 40"

subsection \<open>Window placement\<close>

record POINT =
  pt_x :: int
  pt_y :: int

record RECT =
  rc_left :: int
  rc_top :: int
  rc_right :: int
  rc_bottom :: int

text \<open>
  \<^verbatim>\<open>clamp_to_monitor\<close>. The work area \<^verbatim>\<open>mi.rcWork\<close> of the monitor nearest to the
  desired point is the answer of \<^verbatim>\<open>MonitorFromPoint\<close> and \<^verbatim>\<open>GetMonitorInfo\<close>: the
  function \<open>rcWork\<close> of the environment.
\<close>

definition clamp_to_monitor :: "(POINT \<Rightarrow> RECT) \<Rightarrow> POINT \<Rightarrow> int \<Rightarrow> int \<Rightarrow> RECT" where
  "clamp_to_monitor rcWork desiredTopLeft width height =
     (let mi = rcWork desiredTopLeft;
          monLeft = rc_left mi;
          monTop = rc_top mi;
          monRight = rc_right mi;
          monBottom = rc_bottom mi;
          x0 = pt_x desiredTopLeft;
          y0 = pt_y desiredTopLeft;
          x1 = (if x0 < monLeft then monLeft else x0);
          y1 = (if y0 < monTop then monTop else y0);
          x2 = (if x1 + width > monRight then monRight - width else x1);
          y2 = (if y1 + height > monBottom then monBottom - height else y1)
      in \<lparr>rc_left = x2, rc_top = y2, rc_right = x2 + width, rc_bottom = y2 + height\<rparr>)"

subsection \<open>Capture size\<close>

text \<open>
  The size computed in \<^verbatim>\<open>ensure_resources\<close>, with the two constants it reads as
  arguments.
\<close>

definition desiredCapSize :: "int \<Rightarrow> int \<Rightarrow> int" where
  "desiredCapSize diameter zoom =
     (let d = diameter sdiv zoom
      in if d smod 2 = 0 then d + 1 else d)"

subsection \<open>Formatting the colour\<close>

type_synonym COLORREF = "32 word"

text \<open>The macros of \<^verbatim>\<open>wingdi.h\<close>: the low byte, the second and the third byte.\<close>

definition GetRValue :: "COLORREF \<Rightarrow> int" where
  "GetRValue c = uint (c AND 0xFF)"

definition GetGValue :: "COLORREF \<Rightarrow> int" where
  "GetGValue c = uint (drop_bit 8 c AND 0xFF)"

definition GetBValue :: "COLORREF \<Rightarrow> int" where
  "GetBValue c = uint (drop_bit 16 c AND 0xFF)"

text \<open>
  The conversion \<^verbatim>\<open>%02X\<close> of \<^verbatim>\<open>swprintf\<close>: the argument read as an unsigned
  32-bit value, in upper-case hexadecimal, padded with zeros to two characters
  at least.
\<close>

definition hex_upper_digit :: "nat \<Rightarrow> char" where
  "hex_upper_digit d = ''0123456789ABCDEF'' ! d"

function to_hex_upper :: "nat \<Rightarrow> string" where
  "to_hex_upper n =
     (if n < 16 then [hex_upper_digit n]
      else to_hex_upper (n div 16) @ [hex_upper_digit (n mod 16)])"
  by pat_completeness auto
termination
  by (relation "measure (\<lambda>n. n)") auto

declare to_hex_upper.simps [simp del]

definition fmt_02X :: "int \<Rightarrow> string" where
  "fmt_02X v =
     (let ds = to_hex_upper (nat (v mod 2 ^ 32))
      in replicate (2 - length ds) (CHR ''0'') @ ds)"

text \<open>\<^verbatim>\<open>swprintf(buf, 16, L"#%02X%02X%02X", r, g, b)\<close>\<close>

definition format_color :: "int \<Rightarrow> int \<Rightarrow> int \<Rightarrow> string" where
  "format_color r g b = CHR ''#'' # fmt_02X r @ fmt_02X g @ fmt_02X b"

subsection \<open>The frame buffer and the circular mask\<close>

type_synonym byte = "8 word"

text \<open>
  The 32-bit top-down DIB section behind \<^verbatim>\<open>g_bits\<close>: four bytes a pixel, in the
  order B, G, R, A, \<open>kDiameter * kDiameter * 4\<close> bytes in all.
\<close>

type_synonym frame = "byte list"

definition frame_size :: nat where
  "frame_size = nat (kDiameter * kDiameter * 4)"

text \<open>
  The body of the inner loop of \<^verbatim>\<open>apply_circle_alpha_mask\<close>, with
  \<^verbatim>\<open>p = px + (y * kDiameter + x) * 4\<close> as an index into the buffer.
\<close>

definition mask_pixel :: "int \<Rightarrow> int \<Rightarrow> frame \<Rightarrow> frame" where
  "mask_pixel y x px =
     (let r2 = kRadius * kRadius;
          cx = kRadius;
          cy = kRadius;
          dx = x - cx;
          dy = y - cy;
          d2 = dx * dx + dy * dy;
          p = nat ((y * kDiameter + x) * 4)
      in if d2 \<le> r2 then px[p + 3 := 255]
         else px[p := 0, p + 1 := 0, p + 2 := 0, p + 3 := 0])"

function mask_x_loop :: "int \<Rightarrow> int \<Rightarrow> frame \<Rightarrow> frame" where
  "mask_x_loop y x px =
     (if x < kDiameter then mask_x_loop y (x + 1) (mask_pixel y x px) else px)"
  by pat_completeness auto
termination
  by (relation "measure (\<lambda>(y, x, px). nat (kDiameter - x))") auto

declare mask_x_loop.simps [simp del]

function mask_y_loop :: "int \<Rightarrow> frame \<Rightarrow> frame" where
  "mask_y_loop y px =
     (if y < kDiameter then mask_y_loop (y + 1) (mask_x_loop y 0 px) else px)"
  by pat_completeness auto
termination
  by (relation "measure (\<lambda>(y, px). nat (kDiameter - y))") auto

declare mask_y_loop.simps [simp del]

definition apply_circle_alpha_mask :: "frame \<Rightarrow> frame" where
  "apply_circle_alpha_mask px = mask_y_loop 0 px"

text \<open>\<^verbatim>\<open>memset(p, v, n)\<close> on a buffer of at least \<open>n\<close> bytes.\<close>

definition memset :: "frame \<Rightarrow> byte \<Rightarrow> nat \<Rightarrow> frame" where
  "memset p v n = replicate n v @ drop n p"

subsection \<open>The operating system\<close>

text \<open>The contents of the bitmap selected into \<^verbatim>\<open>g_capDC\<close>.\<close>

type_synonym capture = "COLORREF list"

text \<open>
  What the program asks of Windows. The drawing calls act on the bitmap selected
  into the device context they are given: \<open>BitBlt\<close> yields the pixels copied
  from the screen into the capture bitmap; \<open>StretchBlt\<close>, \<open>Ellipse\<close> and
  \<open>Rectangle\<close> map the bytes of the frame buffer to its bytes after the call
  (the two outlines with the width and the colour of the selected pen and the
  hollow brush). The Boolean fields say whether the call of that name succeeds.
\<close>

record os =
  rcWork :: "POINT \<Rightarrow> RECT"
  BitBlt :: "int \<Rightarrow> int \<Rightarrow> int \<Rightarrow> int \<Rightarrow> capture"
  StretchBlt :: "int \<Rightarrow> int \<Rightarrow> capture \<Rightarrow> int \<Rightarrow> int \<Rightarrow> frame \<Rightarrow> frame"
  Ellipse :: "int \<Rightarrow> COLORREF \<Rightarrow> int \<Rightarrow> int \<Rightarrow> int \<Rightarrow> int \<Rightarrow> frame \<Rightarrow> frame"
  Rectangle :: "int \<Rightarrow> COLORREF \<Rightarrow> int \<Rightarrow> int \<Rightarrow> int \<Rightarrow> int \<Rightarrow> frame \<Rightarrow> frame"
  GetPixel :: "int \<Rightarrow> int \<Rightarrow> COLORREF"
  OpenClipboard :: bool
  GlobalAlloc :: bool
  GlobalLock :: bool
  SetClipboardData :: bool
  GetConsoleWindow :: bool
  AttachConsole :: bool
  wprintf :: bool
  CreateWindowExW :: bool
  SetWindowsHookExW_mouse :: bool
  SetWindowsHookExW_keyboard :: bool
  CallNextHookEx :: int
  DefWindowProc :: "nat \<Rightarrow> int"

text \<open>
  The globals of the program (a handle is \<open>True\<close> when it is not \<^verbatim>\<open>NULL\<close>) and
  the part of the system it reads and writes: the cursor, the keys, the
  clipboard (\<open>None\<close> when empty), the text written to the console, the exit code
  posted by \<^verbatim>\<open>PostQuitMessage\<close>, the timer, the installed hooks, and what
  \<^verbatim>\<open>UpdateLayeredWindow\<close> last presented. \<open>clipboard_opens\<close> counts the calls of \<^verbatim>\<open>OpenClipboard\<close>.
\<close>

record state =
  g_hwnd :: bool
  g_mouseHook :: bool
  g_keyboardHook :: bool
  g_memDC :: bool
  g_dib :: bool
  g_bits :: frame
  g_capDC :: bool
  g_capBmp :: bool
  g_capSize :: int
  g_cap :: capture
  cursor :: POINT
  key_state :: "nat \<Rightarrow> 16 word"
  clipboard :: "string option"
  clipboard_opens :: nat
  console :: string
  quit :: "int option"
  timer :: bool
  mouse_hooked :: bool
  keyboard_hooked :: bool
  window_pos :: POINT
  window_frame :: frame

text \<open>Constants of \<^verbatim>\<open>winuser.h\<close>.\<close>

definition HC_ACTION :: int where "HC_ACTION = 0"
definition WM_CREATE :: nat where "WM_CREATE = 0x0001"
definition WM_DESTROY :: nat where "WM_DESTROY = 0x0002"
definition WM_TIMER :: nat where "WM_TIMER = 0x0113"
definition WM_KEYDOWN :: nat where "WM_KEYDOWN = 0x0100"
definition WM_SYSKEYDOWN :: nat where "WM_SYSKEYDOWN = 0x0104"
definition WM_LBUTTONDOWN :: nat where "WM_LBUTTONDOWN = 0x0201"
definition VK_SHIFT :: nat where "VK_SHIFT = 0x10"
definition VK_ESCAPE :: nat where "VK_ESCAPE = 0x1B"
definition VK_LEFT :: nat where "VK_LEFT = 0x25"
definition VK_UP :: nat where "VK_UP = 0x26"
definition VK_RIGHT :: nat where "VK_RIGHT = 0x27"
definition VK_DOWN :: nat where "VK_DOWN = 0x28"

definition RGB :: "int \<Rightarrow> int \<Rightarrow> int \<Rightarrow> COLORREF" where
  "RGB r g b = word_of_int r OR push_bit 8 (word_of_int g) OR push_bit 16 (word_of_int b)"

text \<open>
  System calls that change the state. \<^verbatim>\<open>SetCursorPos\<close> is taken to put the cursor
  where it is asked to.
\<close>

definition SetCursorPos :: "int \<Rightarrow> int \<Rightarrow> state \<Rightarrow> state" where
  "SetCursorPos x y s = s\<lparr>cursor := \<lparr>pt_x = x, pt_y = y\<rparr>\<rparr>"

definition PostQuitMessage :: "int \<Rightarrow> state \<Rightarrow> state" where
  "PostQuitMessage code s = s\<lparr>quit := Some code\<rparr>"

subsection \<open>Commit: clipboard and console\<close>

definition clipboard_set_text_utf16 :: "os \<Rightarrow> string \<Rightarrow> state \<Rightarrow> state" where
  "clipboard_set_text_utf16 e text s =
     (let s1 = s\<lparr>clipboard_opens := clipboard_opens s + 1\<rparr>
      in if \<not> OpenClipboard e then s1
         else
           (let s2 = s1\<lparr>clipboard := None\<rparr>
            in if GlobalAlloc e then
                 (if GlobalLock e then
                    (if SetClipboardData e then s2\<lparr>clipboard := Some text\<rparr> else s2)
                  else s2)
               else s2))"

definition try_use_parent_console_stdout :: "os \<Rightarrow> bool" where
  "try_use_parent_console_stdout e =
     (if \<not> GetConsoleWindow e then (if \<not> AttachConsole e then False else True) else True)"

definition copy_color_and_quit :: "os \<Rightarrow> state \<Rightarrow> state" where
  "copy_color_and_quit e s =
     (let p = cursor s;
          c = GetPixel e (pt_x p) (pt_y p);
          r = GetRValue c;
          g = GetGValue c;
          b = GetBValue c;
          buf = format_color r g b;
          s1 = clipboard_set_text_utf16 e buf s;
          s2 = (if try_use_parent_console_stdout e then
                  (if wprintf e then s1\<lparr>console := console s1 @ buf @ [CHR 0x0A]\<rparr> else s1)
                else s1)
      in PostQuitMessage 0 s2)"

subsection \<open>The hook procedures\<close>

text \<open>Each returns the \<^verbatim>\<open>LRESULT\<close> (1 swallows the event) and the new state.\<close>

definition LowLevelMouseProc :: "os \<Rightarrow> int \<Rightarrow> nat \<Rightarrow> state \<Rightarrow> int \<times> state" where
  "LowLevelMouseProc e nCode wParam s =
     (if nCode = HC_ACTION \<and> wParam = WM_LBUTTONDOWN then (1, copy_color_and_quit e s)
      else (CallNextHookEx e, s))"

definition LowLevelKeyboardProc :: "os \<Rightarrow> int \<Rightarrow> nat \<Rightarrow> nat \<Rightarrow> state \<Rightarrow> int \<times> state" where
  "LowLevelKeyboardProc e nCode wParam vkCode s =
     (if nCode = HC_ACTION \<and> (wParam = WM_KEYDOWN \<or> wParam = WM_SYSKEYDOWN) then
        (let step = (if key_state s VK_SHIFT AND 0x8000 \<noteq> 0 then 5 else 1);
             p = cursor s
         in if vkCode = VK_LEFT then (1, SetCursorPos (pt_x p - step) (pt_y p) s)
            else if vkCode = VK_RIGHT then (1, SetCursorPos (pt_x p + step) (pt_y p) s)
            else if vkCode = VK_UP then (1, SetCursorPos (pt_x p) (pt_y p - step) s)
            else if vkCode = VK_DOWN then (1, SetCursorPos (pt_x p) (pt_y p + step) s)
            else if vkCode = VK_ESCAPE then (1, PostQuitMessage 0 s)
            else (CallNextHookEx e, s))
      else (CallNextHookEx e, s))"

subsection \<open>Drawing a frame\<close>

text \<open>
  \<^verbatim>\<open>ensure_resources\<close>. The creation calls are not checked by the program and are
  taken to succeed; the fresh DIB section holds \<open>frame_size\<close> bytes.
\<close>

definition ensure_resources :: "state \<Rightarrow> state" where
  "ensure_resources s =
     (let s1 = (if \<not> g_memDC s then
                  s\<lparr>g_memDC := True, g_dib := True, g_bits := replicate frame_size 0,
                    g_capDC := True\<rparr>
                else s);
          desired = desiredCapSize kDiameter kZoom
      in if \<not> g_capBmp s1 \<or> g_capSize s1 \<noteq> desired then
           s1\<lparr>g_capBmp := True, g_capSize := desired\<rparr>
         else s1)"

text \<open>The border ring and the centre marker, drawn with the white pen.\<close>

definition draw_ring :: "os \<Rightarrow> frame \<Rightarrow> frame" where
  "draw_ring e bits =
     (let inset = kBorderWidth sdiv 2
      in Ellipse e kBorderWidth (RGB 255 255 255)
           inset inset (kDiameter - inset) (kDiameter - inset) bits)"

definition draw_marker :: "os \<Rightarrow> frame \<Rightarrow> frame" where
  "draw_marker e bits =
     (let m = 6;
          cx = kRadius;
          cy = kRadius
      in Rectangle e kBorderWidth (RGB 255 255 255)
           (cx - m sdiv 2) (cy - m sdiv 2) (cx + m sdiv 2) (cy + m sdiv 2) bits)"

definition draw_overlay_frame :: "os \<Rightarrow> state \<Rightarrow> state" where
  "draw_overlay_frame e s0 =
     (let s = ensure_resources s0;
          cur = cursor s;
          capSize = g_capSize s;
          half = capSize sdiv 2;
          cap = BitBlt e capSize capSize (pt_x cur - half) (pt_y cur - half);
          b0 = memset (g_bits s) 0 (nat (kDiameter * kDiameter * 4));
          b1 = StretchBlt e kDiameter kDiameter cap capSize capSize b0;
          b2 = apply_circle_alpha_mask b1;
          b3 = draw_ring e b2;
          b4 = draw_marker e b3;
          desired = \<lparr>pt_x = pt_x cur + kOffsetX, pt_y = pt_y cur + kOffsetY\<rparr>;
          wr = clamp_to_monitor (rcWork e) desired kDiameter kDiameter
      in s\<lparr>g_cap := cap, g_bits := b4,
           window_pos := \<lparr>pt_x = rc_left wr, pt_y = rc_top wr\<rparr>, window_frame := b4\<rparr>)"

subsection \<open>The window procedure and the message loop\<close>

definition WndProc :: "os \<Rightarrow> nat \<Rightarrow> state \<Rightarrow> int \<times> state" where
  "WndProc e msg s =
     (if msg = WM_CREATE then (0, s\<lparr>timer := True\<rparr>)
      else if msg = WM_TIMER then (0, draw_overlay_frame e s)
      else if msg = WM_DESTROY then (0, PostQuitMessage 0 (s\<lparr>timer := False\<rparr>))
      else (DefWindowProc e msg, s))"

text \<open>
  What reaches the thread while it waits in \<^verbatim>\<open>GetMessageW\<close>: a call of one of the
  two hook procedures, a message that \<^verbatim>\<open>GetMessageW\<close> returns and
  \<^verbatim>\<open>DispatchMessageW\<close> hands to \<^verbatim>\<open>WndProc\<close>, or a failure of \<^verbatim>\<open>GetMessageW\<close>
  (it returns -1).
\<close>

datatype event =
    MouseEvent int nat
  | KeyboardEvent int nat nat
  | Message nat
  | GetMessageFailed

definition deliver :: "os \<Rightarrow> event \<Rightarrow> state \<Rightarrow> state" where
  "deliver e ev s =
     (case ev of
        MouseEvent nCode wParam \<Rightarrow> snd (LowLevelMouseProc e nCode wParam s)
      | KeyboardEvent nCode wParam vkCode \<Rightarrow> snd (LowLevelKeyboardProc e nCode wParam vkCode s)
      | Message msg \<Rightarrow> snd (WndProc e msg s)
      | GetMessageFailed \<Rightarrow> s)"

text \<open>
  \<^verbatim>\<open>while (GetMessageW(&msg, NULL, 0, 0) > 0) { ... }\<close> over the events that
  arrive. Once \<^verbatim>\<open>PostQuitMessage\<close> has been called the next \<^verbatim>\<open>GetMessageW\<close>
  returns 0 and the loop ends. The result says whether the loop has ended (when
  the events run out before that, the thread is still waiting) and gives the
  state reached.
\<close>

fun message_loop :: "os \<Rightarrow> event list \<Rightarrow> state \<Rightarrow> bool \<times> state" where
  "message_loop e [] s = (quit s \<noteq> None, s)"
| "message_loop e (ev # evs) s =
     (if quit s \<noteq> None then (True, s)
      else if ev = GetMessageFailed then (True, s)
      else message_loop e evs (deliver e ev s))"

text \<open>The teardown after the loop.\<close>

definition release_resources :: "state \<Rightarrow> state" where
  "release_resources s =
     (let s1 = (if g_keyboardHook s then s\<lparr>keyboard_hooked := False\<rparr> else s);
          s2 = (if g_mouseHook s1 then s1\<lparr>mouse_hooked := False\<rparr> else s1);
          s3 = (if g_capBmp s2 then s2\<lparr>g_capBmp := False\<rparr> else s2);
          s4 = (if g_capDC s3 then s3\<lparr>g_capDC := False\<rparr> else s3);
          s5 = (if g_dib s4 then s4\<lparr>g_dib := False\<rparr> else s4)
      in if g_memDC s5 then s5\<lparr>g_memDC := False\<rparr> else s5)"

text \<open>
  \<^verbatim>\<open>wWinMain\<close>: the exit code, \<open>None\<close> while the process has not exited, and the
  state reached. \<^verbatim>\<open>WM_CREATE\<close> is sent to the window procedure inside
  \<^verbatim>\<open>CreateWindowExW\<close>.
\<close>

definition wWinMain :: "os \<Rightarrow> event list \<Rightarrow> state \<Rightarrow> int option \<times> state" where
  "wWinMain e evs s0 =
     (if \<not> CreateWindowExW e then (Some 1, s0\<lparr>g_hwnd := False\<rparr>)
      else
        (let s1 = snd (WndProc e WM_CREATE (s0\<lparr>g_hwnd := True\<rparr>));
             s2 = s1\<lparr>g_mouseHook := SetWindowsHookExW_mouse e,
                     mouse_hooked := SetWindowsHookExW_mouse e\<rparr>;
             s3 = s2\<lparr>g_keyboardHook := SetWindowsHookExW_keyboard e,
                     keyboard_hooked := SetWindowsHookExW_keyboard e\<rparr>;
             (ended, s4) = message_loop e evs s3
         in if ended then (Some 0, release_resources s4) else (None, s4)))"

subsection \<open>Vocabulary of the properties\<close>

text \<open>
  A pixel lies in the circle when its squared distance from the centre
  \<open>(kRadius, kRadius)\<close> is at most \<open>kRadius * kRadius\<close>; \<open>pixel_byte x y c\<close> is the
  index of byte \<open>c\<close> (0 = B, 1 = G, 2 = R, 3 = A) of the pixel in column \<open>x\<close> of
  row \<open>y\<close>; \<open>masked x y a v\<close> is the byte the mask leaves at index \<open>a\<close> of that
  pixel where \<open>v\<close> was.
\<close>

definition in_circle :: "int \<Rightarrow> int \<Rightarrow> bool" where
  "in_circle x y \<longleftrightarrow>
     (x - kRadius) * (x - kRadius) + (y - kRadius) * (y - kRadius) \<le> kRadius * kRadius"

definition pixel_byte :: "int \<Rightarrow> int \<Rightarrow> nat \<Rightarrow> nat" where
  "pixel_byte x y c = nat ((y * kDiameter + x) * 4) + c"

definition masked :: "int \<Rightarrow> int \<Rightarrow> nat \<Rightarrow> byte \<Rightarrow> byte" where
  "masked x y a v = (if in_circle x y then (if a mod 4 = 3 then 255 else v) else 0)"

text \<open>
  The frame buffer inside \<open>draw_overlay_frame\<close> after the \<^verbatim>\<open>memset\<close> and the
  \<^verbatim>\<open>StretchBlt\<close>, and after the mask that follows: the buffer the ring and the
  marker are then drawn on.
\<close>

definition stretched_frame :: "os \<Rightarrow> state \<Rightarrow> frame" where
  "stretched_frame e s0 =
     (let s = ensure_resources s0;
          cur = cursor s;
          capSize = g_capSize s;
          half = capSize sdiv 2;
          cap = BitBlt e capSize capSize (pt_x cur - half) (pt_y cur - half);
          b0 = memset (g_bits s) 0 (nat (kDiameter * kDiameter * 4))
      in StretchBlt e kDiameter kDiameter cap capSize capSize b0)"

definition masked_frame :: "os \<Rightarrow> state \<Rightarrow> frame" where
  "masked_frame e s0 = apply_circle_alpha_mask (stretched_frame e s0)"

text \<open>
  The drawing calls write into the bitmap they are given: the buffer keeps its
  size. \<open>buffer_ok\<close> is the invariant of \<^verbatim>\<open>ensure_resources\<close>: once the DIB
  section exists it has \<open>frame_size\<close> bytes.
\<close>

definition stretch_in_place :: "os \<Rightarrow> bool" where
  "stretch_in_place e \<longleftrightarrow>
     (\<forall>dw dh cap sw sh f. length (StretchBlt e dw dh cap sw sh f) = length f)"

definition pen_in_place :: "os \<Rightarrow> bool" where
  "pen_in_place e \<longleftrightarrow>
     (\<forall>f. length (draw_ring e f) = length f \<and> length (draw_marker e f) = length f)"

definition buffer_ok :: "state \<Rightarrow> bool" where
  "buffer_ok s \<longleftrightarrow> (g_memDC s \<longrightarrow> length (g_bits s) = frame_size)"

text \<open>The events that make the program post its quit message.\<close>

definition shutdown_event :: "event \<Rightarrow> bool" where
  "shutdown_event ev \<longleftrightarrow>
     ev = MouseEvent HC_ACTION WM_LBUTTONDOWN
     \<or> ev = KeyboardEvent HC_ACTION WM_KEYDOWN VK_ESCAPE
     \<or> ev = KeyboardEvent HC_ACTION WM_SYSKEYDOWN VK_ESCAPE
     \<or> ev = Message WM_DESTROY"

subsection \<open>Sample environments\<close>

text \<open>
  Three work areas: a small display with a task bar, a full-HD monitor, and a
  display smaller than the window in both directions.
\<close>

definition small_display :: "POINT \<Rightarrow> RECT" where
  "small_display p = \<lparr>rc_left = 0, rc_top = 0, rc_right = 320, rc_bottom = 200\<rparr>"

definition full_hd :: "POINT \<Rightarrow> RECT" where
  "full_hd p = \<lparr>rc_left = 0, rc_top = 0, rc_right = 1920, rc_bottom = 1040\<rparr>"

definition tiny_display :: "POINT \<Rightarrow> RECT" where
  "tiny_display p = \<lparr>rc_left = 0, rc_top = 0, rc_right = 200, rc_bottom = 160\<rparr>"

text \<open>
  A screen with a colour gradient, a nearest-neighbour stretch that writes alpha 0,
  and a pen that stores the 32-bit value \<open>0x00RRGGBB\<close> at each pixel it
  draws, so the colour bytes and an alpha byte 0: on the ring between the radii
  \<open>rad - w\<close> and \<open>rad\<close> about the centre of the bounding box, and on the outline
  of a rectangle.
\<close>

definition sample_screen :: "int \<Rightarrow> int \<Rightarrow> COLORREF" where
  "sample_screen x y = RGB (x mod 256) (y mod 256) 128"

definition sample_BitBlt :: "int \<Rightarrow> int \<Rightarrow> int \<Rightarrow> int \<Rightarrow> capture" where
  "sample_BitBlt w h x y =
     map (\<lambda>i. sample_screen (x + int i mod w) (y + int i div w)) [0..<nat (w * h)]"

definition sample_StretchBlt ::
  "int \<Rightarrow> int \<Rightarrow> capture \<Rightarrow> int \<Rightarrow> int \<Rightarrow> frame \<Rightarrow> frame" where
  "sample_StretchBlt dw dh cap sw sh f =
     map (\<lambda>a. let p = int a div 4;
                  x = p mod dw;
                  y = p div dw;
                  c = cap ! nat ((y * sh div dh) * sw + x * sw div dw)
              in if a mod 4 = 0 then ucast (drop_bit 16 c)
                 else if a mod 4 = 1 then ucast (drop_bit 8 c)
                 else if a mod 4 = 2 then ucast c
                 else 0)
       [0..<length f]"

definition paint_pixel :: "COLORREF \<Rightarrow> int \<times> int \<Rightarrow> frame \<Rightarrow> frame" where
  "paint_pixel col p f =
     f[pixel_byte (fst p) (snd p) 0 := ucast (drop_bit 16 col),
       pixel_byte (fst p) (snd p) 1 := ucast (drop_bit 8 col),
       pixel_byte (fst p) (snd p) 2 := ucast col,
       pixel_byte (fst p) (snd p) 3 := 0]"

definition paint :: "(int \<times> int) list \<Rightarrow> COLORREF \<Rightarrow> frame \<Rightarrow> frame" where
  "paint pts col f = fold (paint_pixel col) pts f"

definition sample_Ellipse ::
  "int \<Rightarrow> COLORREF \<Rightarrow> int \<Rightarrow> int \<Rightarrow> int \<Rightarrow> int \<Rightarrow> frame \<Rightarrow> frame" where
  "sample_Ellipse w col l t r b f =
     (let cx = (l + r) div 2;
          cy = (t + b) div 2;
          rad = (r - l) div 2
      in paint
           (filter (\<lambda>(x, y).
                (rad - w) * (rad - w) \<le> (x - cx) * (x - cx) + (y - cy) * (y - cy) \<and>
                (x - cx) * (x - cx) + (y - cy) * (y - cy) \<le> rad * rad)
              (List.product [l..r - 1] [t..b - 1]))
           col f)"

definition sample_Rectangle ::
  "int \<Rightarrow> COLORREF \<Rightarrow> int \<Rightarrow> int \<Rightarrow> int \<Rightarrow> int \<Rightarrow> frame \<Rightarrow> frame" where
  "sample_Rectangle w col l t r b f =
     paint (filter (\<lambda>(x, y). x = l \<or> x = r - 1 \<or> y = t \<or> y = b - 1)
              (List.product [l..r - 1] [t..b - 1]))
       col f"

definition sample_os :: os where
  "sample_os =
     \<lparr>rcWork = full_hd, BitBlt = sample_BitBlt, StretchBlt = sample_StretchBlt,
      Ellipse = sample_Ellipse, Rectangle = sample_Rectangle, GetPixel = sample_screen,
      OpenClipboard = True, GlobalAlloc = True, GlobalLock = True, SetClipboardData = True,
      GetConsoleWindow = False, AttachConsole = True, wprintf = True,
      CreateWindowExW = True, SetWindowsHookExW_mouse = True,
      SetWindowsHookExW_keyboard = True, CallNextHookEx = 0, DefWindowProc = (\<lambda>msg. 0)\<rparr>"

text \<open>
  States: the one the process starts in (with some text on the clipboard), one
  with a stale frame buffer, and one with Shift held and the cursor at (101, 100).
\<close>

definition startup :: state where
  "startup =
     \<lparr>g_hwnd = False, g_mouseHook = False, g_keyboardHook = False, g_memDC = False,
      g_dib = False, g_bits = [], g_capDC = False, g_capBmp = False, g_capSize = 0,
      g_cap = [], cursor = \<lparr>pt_x = 100, pt_y = 100\<rparr>, key_state = (\<lambda>vk. 0),
      clipboard = Some ''before'', clipboard_opens = 0, console = [], quit = None,
      timer = False, mouse_hooked = False, keyboard_hooked = False,
      window_pos = \<lparr>pt_x = 0, pt_y = 0\<rparr>, window_frame = []\<rparr>"

definition stale :: state where
  "stale = startup\<lparr>g_memDC := True, g_dib := True, g_capDC := True,
     g_bits := replicate frame_size 0x55\<rparr>"

definition shift_down :: state where
  "shift_down = startup\<lparr>cursor := \<lparr>pt_x = 101, pt_y = 100\<rparr>,
     key_state := (\<lambda>vk. if vk = VK_SHIFT then 0x8000 else 0)\<rparr>"

text \<open>
  Environments where the clipboard cannot be opened and where the window cannot
  be created.
\<close>

definition clipboard_busy :: os where
  "clipboard_busy = sample_os\<lparr>OpenClipboard := False\<rparr>"

definition no_window :: os where
  "no_window = sample_os\<lparr>CreateWindowExW := False\<rparr>"

section \<open>Properties\<close>

subsection \<open>Capture size\<close>

lemma sdiv_pos_eq_div:
  fixes a b :: int
  assumes "0 \<le> a" "0 < b"
  shows "a sdiv b = a div b"
  using assms by (simp add: signed_divide_int_def sgn_if)

lemma smod_2_eq_0_iff:
  fixes d :: int
  shows "d smod 2 = 0 \<longleftrightarrow> even d"
  by (auto simp: signed_modulo_int_def sgn_if abs_if split: if_splits)

text \<open>
  C3. For a positive diameter and a positive zoom factor the capture side is
  \<open>floor (diameter / zoom)\<close> when that is odd and one more when it is even, so it
  is always odd; for the diameter 240 and the zoom factors 1, 2, 4, 8, 16 the
  sides are 241, 121, 61, 31 and 15.
\<close>

theorem desiredCapSize_odd:
  "(0 < diameter \<and> 0 < zoom \<longrightarrow>
      desiredCapSize diameter zoom =
        (if odd (diameter div zoom) then diameter div zoom else diameter div zoom + 1)
      \<and> odd (desiredCapSize diameter zoom))
   \<and> map (desiredCapSize kDiameter) [1, 2, 4, 8, 16] = [241, 121, 61, 31, 15]
   \<and> desiredCapSize kDiameter kZoom = 31"
proof -
  have gen: "desiredCapSize diameter zoom =
        (if odd (diameter div zoom) then diameter div zoom else diameter div zoom + 1)
      \<and> odd (desiredCapSize diameter zoom)" if "0 < diameter" "0 < zoom"
    using that by (simp add: desiredCapSize_def Let_def sdiv_pos_eq_div smod_2_eq_0_iff)
  have ex: "map (desiredCapSize kDiameter) [1, 2, 4, 8, 16] = [241, 121, 61, 31, 15]"
    by (simp add: desiredCapSize_def kDiameter_def Let_def sdiv_pos_eq_div smod_2_eq_0_iff)
  have k: "desiredCapSize kDiameter kZoom = 31"
    by (simp add: desiredCapSize_def kDiameter_def kZoom_def Let_def sdiv_pos_eq_div
        smod_2_eq_0_iff)
  from gen ex k show ?thesis by blast
qed

theorem desiredCapSize_odd_witness:
  "(0::int) < 240 \<and> (0::int) < 7 \<and> desiredCapSize 240 7 = 35 \<and> odd (desiredCapSize 240 7)"
  using desiredCapSize_odd [of 240 7] by simp

subsection \<open>Window placement\<close>

text \<open>
  C4 as stated fails where the work area is smaller than the window: on a
  320 x 200 work area the 240 x 240 window asked for at (40, 40) is moved up to
  the top edge -40, above the top 0 of the work area.
\<close>

theorem clamp_to_monitor_small_work_area:
  "rc_top (clamp_to_monitor small_display \<lparr>pt_x = 40, pt_y = 40\<rparr> kDiameter kDiameter)
     < rc_top (small_display \<lparr>pt_x = 40, pt_y = 40\<rparr>)"
  by (simp add: clamp_to_monitor_def small_display_def kDiameter_def Let_def)

text \<open>
  C4, amended. The rectangle returned by \<open>clamp_to_monitor\<close> has the width and
  the height asked for, and its right and bottom edges never exceed the right and
  bottom bounds of the work area. Its left edge is not less than the left bound
  when the work area is at least as wide as the window, and its top edge is not
  less than the top bound when the work area is at least as high as the window.
  On a work area narrower than the window the right edge is the right bound and
  the left edge lies left of the left bound; on a work area lower than the window
  the bottom edge is the bottom bound and the top edge lies above the top bound.
\<close>

theorem clamp_to_monitor_within:
  "rc_right (clamp_to_monitor work p width height)
     = rc_left (clamp_to_monitor work p width height) + width
   \<and> rc_bottom (clamp_to_monitor work p width height)
     = rc_top (clamp_to_monitor work p width height) + height
   \<and> rc_right (clamp_to_monitor work p width height) \<le> rc_right (work p)
   \<and> rc_bottom (clamp_to_monitor work p width height) \<le> rc_bottom (work p)
   \<and> (width \<le> rc_right (work p) - rc_left (work p) \<longrightarrow>
        rc_left (work p) \<le> rc_left (clamp_to_monitor work p width height))
   \<and> (height \<le> rc_bottom (work p) - rc_top (work p) \<longrightarrow>
        rc_top (work p) \<le> rc_top (clamp_to_monitor work p width height))
   \<and> (rc_right (work p) - rc_left (work p) < width \<longrightarrow>
        rc_right (clamp_to_monitor work p width height) = rc_right (work p)
        \<and> rc_left (clamp_to_monitor work p width height) < rc_left (work p))
   \<and> (rc_bottom (work p) - rc_top (work p) < height \<longrightarrow>
        rc_bottom (clamp_to_monitor work p width height) = rc_bottom (work p)
        \<and> rc_top (clamp_to_monitor work p width height) < rc_top (work p))"
  by (simp add: clamp_to_monitor_def Let_def)

theorem clamp_to_monitor_within_witness:
  "kDiameter \<le> rc_right (full_hd \<lparr>pt_x = 1959, pt_y = 1079\<rparr>)
       - rc_left (full_hd \<lparr>pt_x = 1959, pt_y = 1079\<rparr>)
   \<and> kDiameter \<le> rc_bottom (full_hd \<lparr>pt_x = 1959, pt_y = 1079\<rparr>)
       - rc_top (full_hd \<lparr>pt_x = 1959, pt_y = 1079\<rparr>)
   \<and> clamp_to_monitor full_hd \<lparr>pt_x = 1959, pt_y = 1079\<rparr> kDiameter kDiameter
       = \<lparr>rc_left = 1680, rc_top = 800, rc_right = 1920, rc_bottom = 1040\<rparr>
   \<and> rc_left (full_hd \<lparr>pt_x = 1959, pt_y = 1079\<rparr>)
        \<le> rc_left (clamp_to_monitor full_hd \<lparr>pt_x = 1959, pt_y = 1079\<rparr> kDiameter kDiameter)
   \<and> rc_right (tiny_display \<lparr>pt_x = 90, pt_y = 70\<rparr>)
       - rc_left (tiny_display \<lparr>pt_x = 90, pt_y = 70\<rparr>) < kDiameter
   \<and> rc_bottom (tiny_display \<lparr>pt_x = 90, pt_y = 70\<rparr>)
       - rc_top (tiny_display \<lparr>pt_x = 90, pt_y = 70\<rparr>) < kDiameter
   \<and> clamp_to_monitor tiny_display \<lparr>pt_x = 90, pt_y = 70\<rparr> kDiameter kDiameter
       = \<lparr>rc_left = - 40, rc_top = - 80, rc_right = 200, rc_bottom = 160\<rparr>
   \<and> rc_right (clamp_to_monitor tiny_display \<lparr>pt_x = 90, pt_y = 70\<rparr> kDiameter kDiameter)
       = rc_right (tiny_display \<lparr>pt_x = 90, pt_y = 70\<rparr>)
   \<and> rc_left (clamp_to_monitor tiny_display \<lparr>pt_x = 90, pt_y = 70\<rparr> kDiameter kDiameter)
       < rc_left (tiny_display \<lparr>pt_x = 90, pt_y = 70\<rparr>)"
  using clamp_to_monitor_within [of full_hd "\<lparr>pt_x = 1959, pt_y = 1079\<rparr>" kDiameter kDiameter]
    clamp_to_monitor_within [of tiny_display "\<lparr>pt_x = 90, pt_y = 70\<rparr>" kDiameter kDiameter]
  by (simp add: clamp_to_monitor_def full_hd_def tiny_display_def kDiameter_def Let_def)

text \<open>
  With coordinates and sizes below \<open>2 ^ 30\<close> in absolute value, every sum and
  difference that \<open>clamp_to_monitor\<close> forms fits a 32-bit \<^verbatim>\<open>int\<close>; the right
  and bottom edges it returns are among these values.
\<close>

lemma clamp_to_monitor_right_bottom:
  "rc_right (clamp_to_monitor work p width height)
     \<in> {pt_x p + width, rc_left (work p) + width, rc_right (work p)}"
  "rc_bottom (clamp_to_monitor work p width height)
     \<in> {pt_y p + height, rc_top (work p) + height, rc_bottom (work p)}"
  by (simp_all add: clamp_to_monitor_def Let_def)

lemma clamp_to_monitor_no_overflow:
  assumes "\<forall>v \<in> {pt_x p, pt_y p, width, height, rc_left (work p), rc_top (work p),
      rc_right (work p), rc_bottom (work p)}. \<bar>v\<bar> < 2 ^ 30"
  shows "\<forall>v \<in> {pt_x p + width, pt_y p + height, rc_left (work p) + width,
      rc_top (work p) + height, rc_right (work p) - width, rc_bottom (work p) - height,
      rc_right (work p), rc_bottom (work p)}. - (2 ^ 31) \<le> v \<and> v < 2 ^ 31"
  using assms by (simp add: abs_less_iff)

subsection \<open>Formatting the colour\<close>

lemma low_byte_range:
  fixes w :: "32 word"
  shows "0 \<le> uint (w AND 0xFF) \<and> uint (w AND 0xFF) \<le> 255"
proof -
  have "uint (w AND 0xFF) \<le> uint (0xFF :: 32 word)"
    by (rule word_and_le1 [THEN word_le_def [THEN iffD1]])
  then show ?thesis by simp
qed

lemma channel_range:
  "0 \<le> GetRValue c \<and> GetRValue c \<le> 255"
  "0 \<le> GetGValue c \<and> GetGValue c \<le> 255"
  "0 \<le> GetBValue c \<and> GetBValue c \<le> 255"
  unfolding GetRValue_def GetGValue_def GetBValue_def by (rule low_byte_range)+

lemma hex_upper_digit_mem:
  "d < 16 \<Longrightarrow> hex_upper_digit d \<in> set ''0123456789ABCDEF''"
  unfolding hex_upper_digit_def by (rule nth_mem) simp

lemma to_hex_upper_byte:
  assumes "n < 256"
  shows "to_hex_upper n =
    (if n < 16 then [hex_upper_digit n] else [hex_upper_digit (n div 16), hex_upper_digit (n mod 16)])"
proof (cases "n < 16")
  case True
  then show ?thesis by (simp add: to_hex_upper.simps [of n])
next
  case False
  from assms have "n div 16 < 16" by simp
  then have "to_hex_upper (n div 16) = [hex_upper_digit (n div 16)]"
    by (simp add: to_hex_upper.simps [of "n div 16"])
  with False show ?thesis by (simp add: to_hex_upper.simps [of n])
qed

lemma hex_upper_digit_0: "hex_upper_digit 0 = CHR ''0''"
  by (simp add: hex_upper_digit_def)

lemma fmt_02X_byte:
  assumes "0 \<le> v" "v \<le> 255"
  shows "fmt_02X v = [hex_upper_digit (nat v div 16), hex_upper_digit (nat v mod 16)]"
proof -
  from assms have m: "v mod 4294967296 = v" by simp
  from assms have n: "nat v < 256" by simp
  have z: "nat v < 16 \<Longrightarrow> nat v div 16 = 0 \<and> nat v mod 16 = nat v" by simp
  show ?thesis
    using n z by (auto simp: fmt_02X_def m to_hex_upper_byte Let_def hex_upper_digit_0
        numeral_2_eq_2)
qed

lemma format_color_bytes:
  assumes "0 \<le> r" "r \<le> 255" "0 \<le> g" "g \<le> 255" "0 \<le> b" "b \<le> 255"
  shows "format_color r g b =
     [CHR ''#'', hex_upper_digit (nat r div 16), hex_upper_digit (nat r mod 16),
      hex_upper_digit (nat g div 16), hex_upper_digit (nat g mod 16),
      hex_upper_digit (nat b div 16), hex_upper_digit (nat b mod 16)]"
  using assms by (simp add: format_color_def fmt_02X_byte)

lemma commit_text_length:
  "length (format_color (GetRValue c) (GetGValue c) (GetBValue c)) = 7"
  using channel_range [of c] by (simp add: format_color_bytes)

text \<open>
  C2. For channels between 0 and 255 the formatted text is \<open>#\<close> followed by two
  upper-case hexadecimal digits for each of R, G and B in this order, the high
  digit first and zero-padded: seven characters in all. (0, 0, 0) gives
  \<open>#000000\<close> and (255, 165, 0) gives \<open>#FFA500\<close>. The channels that
  \<open>copy_color_and_quit\<close> takes from a pixel are always in this range.
\<close>

theorem format_color_hex:
  "(0 \<le> r \<and> r \<le> 255 \<and> 0 \<le> g \<and> g \<le> 255 \<and> 0 \<le> b \<and> b \<le> 255 \<longrightarrow>
      format_color r g b =
        [CHR ''#'', hex_upper_digit (nat r div 16), hex_upper_digit (nat r mod 16),
         hex_upper_digit (nat g div 16), hex_upper_digit (nat g mod 16),
         hex_upper_digit (nat b div 16), hex_upper_digit (nat b mod 16)]
      \<and> length (format_color r g b) = 7
      \<and> hd (format_color r g b) = CHR ''#''
      \<and> set (tl (format_color r g b)) \<subseteq> set ''0123456789ABCDEF'')
   \<and> format_color 0 0 0 = ''#000000''
   \<and> format_color 255 165 0 = ''#FFA500''
   \<and> length (format_color (GetRValue c) (GetGValue c) (GetBValue c)) = 7"
proof -
  have gen: "format_color r g b =
        [CHR ''#'', hex_upper_digit (nat r div 16), hex_upper_digit (nat r mod 16),
         hex_upper_digit (nat g div 16), hex_upper_digit (nat g mod 16),
         hex_upper_digit (nat b div 16), hex_upper_digit (nat b mod 16)]
      \<and> length (format_color r g b) = 7
      \<and> hd (format_color r g b) = CHR ''#''
      \<and> set (tl (format_color r g b)) \<subseteq> set ''0123456789ABCDEF''"
    if h: "0 \<le> r" "r \<le> 255" "0 \<le> g" "g \<le> 255" "0 \<le> b" "b \<le> 255"
  proof -
    have d: "nat r div 16 < 16" "nat r mod 16 < 16" "nat g div 16 < 16" "nat g mod 16 < 16"
      "nat b div 16 < 16" "nat b mod 16 < 16"
      using h by simp_all
    show ?thesis
      unfolding format_color_bytes [OF h]
      using d [THEN hex_upper_digit_mem] by simp
  qed
  have e1: "format_color 0 0 0 = ''#000000''"
    by (simp add: format_color_bytes hex_upper_digit_def)
  have e2: "format_color 255 165 0 = ''#FFA500''"
    by (simp add: format_color_bytes hex_upper_digit_def)
  from gen e1 e2 commit_text_length show ?thesis by blast
qed

theorem format_color_hex_witness:
  "(0::int) \<le> 18 \<and> (18::int) \<le> 255 \<and> (0::int) \<le> 171 \<and> (171::int) \<le> 255
   \<and> (0::int) \<le> 9 \<and> (9::int) \<le> 255
   \<and> format_color 18 171 9 = ''#12AB09'' \<and> length (format_color 18 171 9) = 7"
  using format_color_hex [of 18 171 9] by (simp add: hex_upper_digit_def)

subsection \<open>The circular mask\<close>

lemma div240_mod:
  fixes p y :: int
  shows "p div 240 = y \<Longrightarrow> p - y * 240 = p mod 240"
  using minus_div_mult_eq_mod [of p 240] by simp

lemma div240_iff:
  fixes p y :: int
  shows "p div 240 = y \<longleftrightarrow> 0 \<le> p - y * 240 \<and> p - y * 240 < 240"
proof
  assume "p div 240 = y"
  then have "p - y * 240 = p mod 240" by (rule div240_mod)
  then show "0 \<le> p - y * 240 \<and> p - y * 240 < 240" by simp
next
  assume h: "0 \<le> p - y * 240 \<and> p - y * 240 < 240"
  show "p div 240 = y"
    by (rule int_div_pos_eq [of p 240 y "p - y * 240"]) (use h in simp_all)
qed

lemma div4_cases:
  fixes a n :: nat
  shows "a div 4 = n \<longleftrightarrow> a = 4 * n \<or> a = 4 * n + 1 \<or> a = 4 * n + 2 \<or> a = 4 * n + 3"
  by presburger

lemma div4_mod:
  fixes a n :: nat
  shows "a div 4 = n \<Longrightarrow> (a mod 4 = 3 \<longleftrightarrow> a = 4 * n + 3)"
  by presburger

lemma length_mask_pixel [simp]: "length (mask_pixel y x px) = length px"
  by (simp add: mask_pixel_def Let_def)

lemma mask_pixel_nth:
  assumes "0 \<le> y" "0 \<le> x" "a < length px"
  shows "mask_pixel y x px ! a =
    (if int (a div 4) = y * 240 + x then masked x y a (px ! a) else px ! a)"
proof -
  define p where "p = nat ((y * 240 + x) * 4)"
  have p4: "p = 4 * nat (y * 240 + x)" using assms by (simp add: p_def nat_mult_distrib)
  have pn: "int (a div 4) = y * 240 + x \<longleftrightarrow> a div 4 = nat (y * 240 + x)"
    using assms by auto
  have cases: "a div 4 = nat (y * 240 + x) \<longleftrightarrow> a = p \<or> a = p + 1 \<or> a = p + 2 \<or> a = p + 3"
    unfolding p4 by (rule div4_cases)
  have m3: "a div 4 = nat (y * 240 + x) \<Longrightarrow> (a mod 4 = 3 \<longleftrightarrow> a = p + 3)"
    unfolding p4 by (rule div4_mod)
  have ic: "in_circle x y \<longleftrightarrow> (x - 120) * (x - 120) + (y - 120) * (y - 120) \<le> 120 * 120"
    by (simp add: in_circle_def kRadius_def)
  show ?thesis
  proof (cases "in_circle x y")
    case True
    then have "mask_pixel y x px = px[p + 3 := 255]"
      using ic by (simp add: mask_pixel_def Let_def kRadius_def kDiameter_def p_def)
    then show ?thesis
      using True assms(3) cases m3 unfolding pn
      by (auto simp: masked_def nth_list_update)
  next
    case False
    then have "mask_pixel y x px = px[p := 0, p + 1 := 0, p + 2 := 0, p + 3 := 0]"
      using ic by (simp add: mask_pixel_def Let_def kRadius_def kDiameter_def p_def)
    then show ?thesis
      using False assms(3) cases unfolding pn
      by (auto simp: masked_def nth_list_update)
  qed
qed

lemma length_mask_x_loop [simp]: "length (mask_x_loop y x px) = length px"
proof (induction y x px rule: mask_x_loop.induct)
  case (1 y x px)
  then show ?case by (simp add: mask_x_loop.simps [of y x px])
qed

lemma mask_x_loop_nth:
  assumes "0 \<le> y" "0 \<le> x" "a < length px"
  shows "mask_x_loop y x px ! a =
    (if x \<le> int (a div 4) - y * 240 \<and> int (a div 4) - y * 240 < 240
     then masked (int (a div 4) - y * 240) y a (px ! a) else px ! a)"
  using assms
proof (induction y x px rule: mask_x_loop.induct)
  case (1 y x px)
  show ?case
  proof (cases "x < kDiameter")
    case False
    then have "\<not> (x \<le> int (a div 4) - y * 240 \<and> int (a div 4) - y * 240 < 240)"
      by (simp add: kDiameter_def)
    with False show ?thesis
      by (simp only: mask_x_loop.simps [of y x px] if_False)
  next
    case True
    have step: "mask_x_loop y x px = mask_x_loop y (x + 1) (mask_pixel y x px)"
      using True by (simp add: mask_x_loop.simps [of y x px])
    have ih: "mask_x_loop y (x + 1) (mask_pixel y x px) ! a =
      (if x + 1 \<le> int (a div 4) - y * 240 \<and> int (a div 4) - y * 240 < 240
       then masked (int (a div 4) - y * 240) y a (mask_pixel y x px ! a)
       else mask_pixel y x px ! a)"
      using "1.IH" [OF True] "1.prems" by simp
    have mp: "mask_pixel y x px ! a =
      (if int (a div 4) = y * 240 + x then masked x y a (px ! a) else px ! a)"
      using "1.prems" by (rule mask_pixel_nth)
    have eq: "int (a div 4) = y * 240 + x \<longleftrightarrow> int (a div 4) - y * 240 = x" by auto
    show ?thesis
      unfolding step ih mp eq using True
      by (auto simp: kDiameter_def)
  qed
qed

lemma length_mask_y_loop [simp]: "length (mask_y_loop y px) = length px"
proof (induction y px rule: mask_y_loop.induct)
  case (1 y px)
  then show ?case by (simp add: mask_y_loop.simps [of y px])
qed

lemma mask_y_loop_nth:
  assumes "0 \<le> y" "a < length px"
  shows "mask_y_loop y px ! a =
    (if y \<le> int (a div 4) div 240 \<and> int (a div 4) div 240 < 240
     then masked (int (a div 4) mod 240) (int (a div 4) div 240) a (px ! a) else px ! a)"
  using assms
proof (induction y px rule: mask_y_loop.induct)
  case (1 y px)
  show ?case
  proof (cases "y < kDiameter")
    case False
    then have "\<not> (y \<le> int (a div 4) div 240 \<and> int (a div 4) div 240 < 240)"
      by (simp add: kDiameter_def)
    with False show ?thesis
      by (simp only: mask_y_loop.simps [of y px] if_False)
  next
    case True
    have step: "mask_y_loop y px = mask_y_loop (y + 1) (mask_x_loop y 0 px)"
      using True by (simp add: mask_y_loop.simps [of y px])
    have ih: "mask_y_loop (y + 1) (mask_x_loop y 0 px) ! a =
      (if y + 1 \<le> int (a div 4) div 240 \<and> int (a div 4) div 240 < 240
       then masked (int (a div 4) mod 240) (int (a div 4) div 240) a (mask_x_loop y 0 px ! a)
       else mask_x_loop y 0 px ! a)"
      using "1.IH" [OF True] "1.prems" by simp
    have row: "mask_x_loop y 0 px ! a =
      (if 0 \<le> int (a div 4) - y * 240 \<and> int (a div 4) - y * 240 < 240
       then masked (int (a div 4) - y * 240) y a (px ! a) else px ! a)"
      using "1.prems" by (intro mask_x_loop_nth) simp_all
    have here: "0 \<le> int (a div 4) - y * 240 \<and> int (a div 4) - y * 240 < 240
        \<longleftrightarrow> int (a div 4) div 240 = y"
      by (simp only: div240_iff)
    have col: "int (a div 4) div 240 = y \<Longrightarrow> int (a div 4) - y * 240 = int (a div 4) mod 240"
      by (rule div240_mod)
    show ?thesis
      unfolding step ih row here using True col
      by (auto simp: kDiameter_def)
  qed
qed

lemma length_apply_circle_alpha_mask [simp]:
  "length (apply_circle_alpha_mask px) = length px"
  by (simp add: apply_circle_alpha_mask_def)

lemma apply_circle_alpha_mask_nth:
  assumes "a < length px" "a < frame_size"
  shows "apply_circle_alpha_mask px ! a =
    masked (int (a div 4) mod 240) (int (a div 4) div 240) a (px ! a)"
proof -
  from assms(2) have "a < 230400" by (simp add: frame_size_def kDiameter_def)
  then have "int (a div 4) \<le> 57599" by simp
  then have "int (a div 4) div 240 \<le> 57599 div 240"
    by (rule zdiv_mono1) simp
  then have "int (a div 4) div 240 < 240" by simp
  then have "0 \<le> int (a div 4) div 240 \<and> int (a div 4) div 240 < 240" by simp
  then show ?thesis
    unfolding apply_circle_alpha_mask_def
    by (simp only: mask_y_loop_nth [OF order_refl assms(1)] if_True simp_thms)
qed

lemma pixel_byte_coords:
  assumes "0 \<le> x" "x < kDiameter" "0 \<le> y" "y < kDiameter" "c < 4"
  shows "pixel_byte x y c < frame_size"
    and "int (pixel_byte x y c div 4) mod 240 = x"
    and "int (pixel_byte x y c div 4) div 240 = y"
    and "pixel_byte x y c mod 4 = c"
proof -
  define q where "q = nat (y * 240 + x)"
  have q: "pixel_byte x y c = 4 * q + c"
    using assms by (simp add: pixel_byte_def kDiameter_def q_def nat_mult_distrib)
  have iq: "int q = y * 240 + x" using assms by (simp add: q_def)
  have "y * 240 + x < 57600" using assms by (simp add: kDiameter_def)
  then have "q < 57600" using iq by linarith
  then show "pixel_byte x y c < frame_size"
    using assms(5) by (simp add: q frame_size_def kDiameter_def)
  have d: "(4 * q + c) div 4 = q" using assms(5) by simp
  show "int (pixel_byte x y c div 4) mod 240 = x"
    using assms by (simp add: q d iq kDiameter_def)
  show "int (pixel_byte x y c div 4) div 240 = y"
    using assms by (simp add: q d iq kDiameter_def)
  show "pixel_byte x y c mod 4 = c"
    using assms(5) by (simp add: q)
qed

lemma apply_circle_alpha_mask_pixel:
  assumes "length px = frame_size" "0 \<le> x" "x < kDiameter" "0 \<le> y" "y < kDiameter" "c < 4"
  shows "apply_circle_alpha_mask px ! pixel_byte x y c =
           (if in_circle x y then (if c = 3 then 255 else px ! pixel_byte x y c) else 0)"
  using pixel_byte_coords [OF assms(2-6)] assms(1)
  by (simp add: apply_circle_alpha_mask_nth masked_def)

lemma masked_idem: "masked x y a (masked x y a v) = masked x y a v"
  by (simp add: masked_def)

lemma apply_circle_alpha_mask_idem:
  assumes "length px = frame_size"
  shows "apply_circle_alpha_mask (apply_circle_alpha_mask px) = apply_circle_alpha_mask px"
proof (rule nth_equalityI)
  show "length (apply_circle_alpha_mask (apply_circle_alpha_mask px)) =
        length (apply_circle_alpha_mask px)" by simp
next
  fix a assume "a < length (apply_circle_alpha_mask (apply_circle_alpha_mask px))"
  then have a: "a < length px" "a < frame_size" using assms by simp_all
  show "apply_circle_alpha_mask (apply_circle_alpha_mask px) ! a = apply_circle_alpha_mask px ! a"
    using a by (simp add: apply_circle_alpha_mask_nth masked_idem)
qed

text \<open>
  C10. On a frame buffer of \<open>frame_size\<close> bytes, applying the mask twice gives the
  same buffer as applying it once, and the mask leaves the three colour bytes of
  every pixel inside the circle as they were (there it writes the alpha byte
  only).
\<close>

theorem apply_circle_alpha_mask_idempotent:
  assumes "length px = frame_size"
  shows "apply_circle_alpha_mask (apply_circle_alpha_mask px) = apply_circle_alpha_mask px
       \<and> (\<forall>x y c. 0 \<le> x \<and> x < kDiameter \<and> 0 \<le> y \<and> y < kDiameter \<and> in_circle x y \<and> c < 3 \<longrightarrow>
            apply_circle_alpha_mask px ! pixel_byte x y c = px ! pixel_byte x y c)"
proof -
  have "apply_circle_alpha_mask px ! pixel_byte x y c = px ! pixel_byte x y c"
    if "0 \<le> x" "x < kDiameter" "0 \<le> y" "y < kDiameter" "in_circle x y" "c < 3" for x y c
    using apply_circle_alpha_mask_pixel [OF assms that(1-4), of c] that(5,6) by simp
  with apply_circle_alpha_mask_idem [OF assms] show ?thesis by blast
qed

theorem apply_circle_alpha_mask_idempotent_witness:
  "length (replicate frame_size (0x55::byte)) = frame_size
   \<and> apply_circle_alpha_mask (apply_circle_alpha_mask (replicate frame_size 0x55))
       = apply_circle_alpha_mask (replicate frame_size 0x55)
   \<and> in_circle 120 120
   \<and> apply_circle_alpha_mask (replicate frame_size 0x55) ! pixel_byte 120 120 0
       = replicate frame_size 0x55 ! pixel_byte 120 120 0"
  using apply_circle_alpha_mask_idempotent [of "replicate frame_size 0x55"]
  by (simp add: in_circle_def kRadius_def kDiameter_def)

subsection \<open>The composited frame\<close>

lemma memset_whole: "length p = n \<Longrightarrow> memset p v n = replicate n v"
  by (simp add: memset_def)

lemma frame_size_eq: "nat (kDiameter * kDiameter * 4) = frame_size"
  by (simp add: frame_size_def)

lemma ensure_resources_bits:
  assumes "buffer_ok s"
  shows "length (g_bits (ensure_resources s)) = frame_size"
  using assms by (simp add: ensure_resources_def buffer_ok_def Let_def)

lemma ensure_resources_capSize:
  "g_capSize (ensure_resources s) = desiredCapSize kDiameter kZoom"
  by (simp add: ensure_resources_def Let_def)

lemma ensure_resources_cursor: "cursor (ensure_resources s) = cursor s"
  by (simp add: ensure_resources_def Let_def)

lemma draw_overlay_frame_bits:
  assumes "buffer_ok s"
  shows "g_bits (draw_overlay_frame e s) =
     draw_marker e (draw_ring e (apply_circle_alpha_mask
       (StretchBlt e kDiameter kDiameter (g_cap (draw_overlay_frame e s))
          (desiredCapSize kDiameter kZoom) (desiredCapSize kDiameter kZoom)
          (replicate frame_size 0))))"
  using ensure_resources_bits [OF assms]
  by (simp add: draw_overlay_frame_def Let_def frame_size_eq memset_whole
      ensure_resources_capSize)

lemma draw_overlay_frame_window_frame:
  "window_frame (draw_overlay_frame e s) = g_bits (draw_overlay_frame e s)"
  by (simp add: draw_overlay_frame_def Let_def)

lemma stretched_frame_length:
  assumes "buffer_ok s" "stretch_in_place e"
  shows "length (stretched_frame e s) = frame_size"
  using ensure_resources_bits [OF assms(1)] assms(2)
  by (simp add: stretched_frame_def stretch_in_place_def Let_def frame_size_eq memset_whole)

lemma masked_frame_length:
  assumes "buffer_ok s" "stretch_in_place e"
  shows "length (masked_frame e s) = frame_size"
  using stretched_frame_length [OF assms] by (simp add: masked_frame_def)

lemma draw_overlay_frame_masked:
  "g_bits (draw_overlay_frame e s) = draw_marker e (draw_ring e (masked_frame e s))"
  by (simp add: draw_overlay_frame_def masked_frame_def stretched_frame_def Let_def)


lemma draw_overlay_frame_buffer_ok:
  assumes "buffer_ok s" "stretch_in_place e" "pen_in_place e"
  shows "buffer_ok (draw_overlay_frame e s)"
proof -
  have "length (g_bits (draw_overlay_frame e s)) = frame_size"
    using masked_frame_length [OF assms(1,2)] assms(3)
    by (simp add: draw_overlay_frame_masked pen_in_place_def)
  then show ?thesis by (simp add: buffer_ok_def)
qed

lemma deliver_buffer_ok:
  assumes "buffer_ok s" "stretch_in_place e" "pen_in_place e"
  shows "buffer_ok (deliver e ev s)"
proof (cases ev)
  case (MouseEvent nCode wParam)
  with assms(1) show ?thesis
    by (simp add: deliver_def LowLevelMouseProc_def copy_color_and_quit_def
        clipboard_set_text_utf16_def PostQuitMessage_def buffer_ok_def Let_def)
next
  case (KeyboardEvent nCode wParam vkCode)
  with assms(1) show ?thesis
    by (simp add: deliver_def LowLevelKeyboardProc_def SetCursorPos_def PostQuitMessage_def
        buffer_ok_def Let_def)
next
  case (Message msg)
  have "buffer_ok (draw_overlay_frame e s)" by (rule draw_overlay_frame_buffer_ok [OF assms])
  with assms(1) Message show ?thesis
    by (auto simp: deliver_def WndProc_def PostQuitMessage_def buffer_ok_def)
next
  case GetMessageFailed
  with assms(1) show ?thesis by (simp add: deliver_def)
qed


lemma length_paint_pixel [simp]: "length (paint_pixel col p f) = length f"
  by (simp add: paint_pixel_def)

lemma length_paint [simp]: "length (paint pts col f) = length f"
  unfolding paint_def by (induction pts arbitrary: f) simp_all













lemma buffer_ok_startup: "buffer_ok startup"
  by (simp add: buffer_ok_def startup_def)




text \<open>
  C9. Two runs of \<open>draw_overlay_frame\<close> in the same environment whose capture
  buffers hold the same pixels compose the same frame, byte for byte, whatever
  else differs between the two states: the cursor, the window, and the bytes the
  frame buffer held before (the \<^verbatim>\<open>memset\<close> overwrites all of them).
\<close>

theorem draw_overlay_frame_deterministic:
  assumes "buffer_ok s" and "buffer_ok s'"
    and "g_cap (draw_overlay_frame e s) = g_cap (draw_overlay_frame e s')"
  shows "g_bits (draw_overlay_frame e s) = g_bits (draw_overlay_frame e s')
       \<and> window_frame (draw_overlay_frame e s) = window_frame (draw_overlay_frame e s')"
  by (simp add: draw_overlay_frame_window_frame draw_overlay_frame_bits [OF assms(1)]
      draw_overlay_frame_bits [OF assms(2)] assms(3))

theorem draw_overlay_frame_deterministic_witness:
  "buffer_ok startup \<and> buffer_ok stale
   \<and> g_cap (draw_overlay_frame sample_os startup) = g_cap (draw_overlay_frame sample_os stale)
   \<and> g_bits startup \<noteq> g_bits stale
   \<and> g_bits (draw_overlay_frame sample_os startup) = g_bits (draw_overlay_frame sample_os stale)"
proof -
  have 1: "buffer_ok startup" by (rule buffer_ok_startup)
  have 2: "buffer_ok stale" by (simp add: buffer_ok_def stale_def)
  have 3: "g_cap (draw_overlay_frame sample_os startup) = g_cap (draw_overlay_frame sample_os stale)"
    by (simp add: draw_overlay_frame_def Let_def ensure_resources_def stale_def startup_def)
  have 4: "g_bits startup \<noteq> g_bits stale"
    by (simp add: stale_def startup_def frame_size_def kDiameter_def)
  from draw_overlay_frame_deterministic [OF 1 2 3] 1 2 3 4 show ?thesis by simp
qed

subsection \<open>The keyboard hook\<close>

lemma shift_bit:
  fixes w :: "16 word"
  shows "w AND 0x8000 \<noteq> 0 \<longleftrightarrow> bit w 15"
proof -
  have "(0x8000 :: 16 word) = push_bit 15 1" by simp
  then show ?thesis
    by (simp only: bit_iff_and_push_bit_not_eq_0)
qed

lemmas vk_defs = VK_LEFT_def VK_RIGHT_def VK_UP_def VK_DOWN_def VK_ESCAPE_def VK_SHIFT_def
lemmas wm_defs = WM_CREATE_def WM_DESTROY_def WM_TIMER_def WM_KEYDOWN_def WM_SYSKEYDOWN_def
  WM_LBUTTONDOWN_def

text \<open>
  C5. On a key-down event (\<^verbatim>\<open>WM_KEYDOWN\<close> or \<^verbatim>\<open>WM_SYSKEYDOWN\<close> with
  \<^verbatim>\<open>HC_ACTION\<close>) of an arrow key the keyboard hook sets the cursor one pixel
  further in the direction of the key, five pixels when Shift is held (the top
  bit of its key state is set), leaves the other coordinate as it is, and returns
  1, which swallows the event.
\<close>

theorem arrow_key_moves_cursor:
  assumes "wParam = WM_KEYDOWN \<or> wParam = WM_SYSKEYDOWN"
    and "step = (if bit (key_state s VK_SHIFT) 15 then 5 else 1)"
  shows "LowLevelKeyboardProc e HC_ACTION wParam VK_LEFT s =
           (1, s\<lparr>cursor := \<lparr>pt_x = pt_x (cursor s) - step, pt_y = pt_y (cursor s)\<rparr>\<rparr>)
       \<and> LowLevelKeyboardProc e HC_ACTION wParam VK_RIGHT s =
           (1, s\<lparr>cursor := \<lparr>pt_x = pt_x (cursor s) + step, pt_y = pt_y (cursor s)\<rparr>\<rparr>)
       \<and> LowLevelKeyboardProc e HC_ACTION wParam VK_UP s =
           (1, s\<lparr>cursor := \<lparr>pt_x = pt_x (cursor s), pt_y = pt_y (cursor s) - step\<rparr>\<rparr>)
       \<and> LowLevelKeyboardProc e HC_ACTION wParam VK_DOWN s =
           (1, s\<lparr>cursor := \<lparr>pt_x = pt_x (cursor s), pt_y = pt_y (cursor s) + step\<rparr>\<rparr>)"
  using assms
  by (auto simp: LowLevelKeyboardProc_def SetCursorPos_def Let_def shift_bit vk_defs)

theorem arrow_key_moves_cursor_witness:
  "(WM_KEYDOWN = WM_KEYDOWN \<or> WM_KEYDOWN = WM_SYSKEYDOWN)
   \<and> cursor startup = \<lparr>pt_x = 100, pt_y = 100\<rparr>
   \<and> \<not> bit (key_state startup VK_SHIFT) 15
   \<and> cursor (snd (LowLevelKeyboardProc sample_os HC_ACTION WM_KEYDOWN VK_RIGHT startup))
       = \<lparr>pt_x = 101, pt_y = 100\<rparr>
   \<and> cursor shift_down = \<lparr>pt_x = 101, pt_y = 100\<rparr>
   \<and> bit (key_state shift_down VK_SHIFT) 15
   \<and> cursor (snd (LowLevelKeyboardProc sample_os HC_ACTION WM_KEYDOWN VK_RIGHT shift_down))
       = \<lparr>pt_x = 106, pt_y = 100\<rparr>"
  using arrow_key_moves_cursor [of WM_KEYDOWN 1 startup sample_os]
    arrow_key_moves_cursor [of WM_KEYDOWN 5 shift_down sample_os]
  by (simp add: startup_def shift_down_def bit_simps)

subsection \<open>Commit\<close>

text \<open>
  C7. When \<^verbatim>\<open>OpenClipboard\<close> fails, \<open>clipboard_set_text_utf16\<close> changes nothing but
  the count of attempts, so the clipboard keeps its content. Whatever the clipboard
  and console calls answer, the commit path tries to open the clipboard exactly
  once and posts the quit message with code 0; the click is swallowed.
\<close>

theorem commit_best_effort:
  "(\<not> OpenClipboard e \<longrightarrow>
      clipboard_set_text_utf16 e text s = s\<lparr>clipboard_opens := clipboard_opens s + 1\<rparr>
      \<and> clipboard (copy_color_and_quit e s) = clipboard s)
   \<and> clipboard_opens (copy_color_and_quit e s) = clipboard_opens s + 1
   \<and> quit (copy_color_and_quit e s) = Some 0
   \<and> LowLevelMouseProc e HC_ACTION WM_LBUTTONDOWN s = (1, copy_color_and_quit e s)"
  by (simp add: clipboard_set_text_utf16_def copy_color_and_quit_def PostQuitMessage_def
      LowLevelMouseProc_def Let_def)

theorem commit_best_effort_witness:
  "\<not> OpenClipboard clipboard_busy
   \<and> clipboard (copy_color_and_quit clipboard_busy startup) = Some ''before''
   \<and> clipboard_opens (copy_color_and_quit clipboard_busy startup) = 1
   \<and> quit (copy_color_and_quit clipboard_busy startup) = Some 0"
  using commit_best_effort [of clipboard_busy "''#''" startup]
  by (simp add: clipboard_busy_def sample_os_def startup_def)

lemma red_pixel_commit:
  "clipboard (copy_color_and_quit (sample_os\<lparr>GetPixel := (\<lambda>x y. RGB 255 0 0)\<rparr>) startup)
     = Some ''#FF0000''"
  by (simp add: copy_color_and_quit_def clipboard_set_text_utf16_def sample_os_def startup_def
      PostQuitMessage_def Let_def try_use_parent_console_stdout_def RGB_def GetRValue_def
      GetGValue_def GetBValue_def format_color_bytes hex_upper_digit_def)

subsection \<open>The message loop and the exit code\<close>

lemma deliver_shutdown:
  assumes "shutdown_event ev"
  shows "quit (deliver e ev s) \<noteq> None"
  using assms
  by (auto simp: shutdown_event_def deliver_def LowLevelMouseProc_def LowLevelKeyboardProc_def
      WndProc_def copy_color_and_quit_def PostQuitMessage_def Let_def vk_defs wm_defs)

lemma message_loop_quit: "quit s \<noteq> None \<Longrightarrow> message_loop e evs s = (True, s)"
  by (cases evs) simp_all

lemma message_loop_ends:
  assumes "\<exists>ev\<in>set evs. shutdown_event ev"
  shows "fst (message_loop e evs s)"
  using assms
proof (induction evs arbitrary: s)
  case Nil
  then show ?case by simp
next
  case (Cons ev evs)
  show ?case
  proof (cases "quit s \<noteq> None \<or> ev = GetMessageFailed")
    case True
    then show ?thesis by auto
  next
    case False
    then have step: "message_loop e (ev # evs) s = message_loop e evs (deliver e ev s)"
      by simp
    show ?thesis
    proof (cases "shutdown_event ev")
      case True
      then have "quit (deliver e ev s) \<noteq> None" by (rule deliver_shutdown)
      then show ?thesis unfolding step by (simp add: message_loop_quit)
    next
      case False
      with Cons.prems have "\<exists>ev\<in>set evs. shutdown_event ev" by simp
      then show ?thesis unfolding step by (rule Cons.IH)
    qed
  qed
qed

text \<open>
  C8. The exit code is 1 exactly when \<^verbatim>\<open>CreateWindowExW\<close> fails. When the window
  is created and a left click, an Escape key-down or \<^verbatim>\<open>WM_DESTROY\<close> arrives, the
  process exits with code 0.
\<close>

theorem exit_codes:
  "(fst (wWinMain e evs s) = Some 1 \<longleftrightarrow> \<not> CreateWindowExW e)
   \<and> (CreateWindowExW e \<and> (\<exists>ev\<in>set evs. shutdown_event ev) \<longrightarrow>
        fst (wWinMain e evs s) = Some 0)"
proof -
  have a: "fst (wWinMain e evs s) = Some 1" if "\<not> CreateWindowExW e"
    using that by (simp add: wWinMain_def)
  have b: "fst (wWinMain e evs s) \<noteq> Some 1" if "CreateWindowExW e"
    using that by (simp add: wWinMain_def Let_def split: prod.splits)
  have c: "fst (wWinMain e evs s) = Some 0"
    if "CreateWindowExW e" "\<exists>ev\<in>set evs. shutdown_event ev"
    using that(1) message_loop_ends [OF that(2), of e]
    by (simp add: wWinMain_def Let_def split: prod.splits) (metis fst_conv)
  from a b c show ?thesis by blast
qed

theorem exit_codes_witness:
  "\<not> CreateWindowExW no_window
   \<and> fst (wWinMain no_window [Message WM_TIMER] startup) = Some 1
   \<and> CreateWindowExW sample_os
   \<and> (\<exists>ev\<in>set [Message WM_TIMER, MouseEvent HC_ACTION WM_LBUTTONDOWN]. shutdown_event ev)
   \<and> fst (wWinMain sample_os [Message WM_TIMER, MouseEvent HC_ACTION WM_LBUTTONDOWN] startup)
       = Some 0"
  using exit_codes [of no_window "[Message WM_TIMER]" startup]
    exit_codes [of sample_os "[Message WM_TIMER, MouseEvent HC_ACTION WM_LBUTTONDOWN]" startup]
  by (simp add: no_window_def sample_os_def shutdown_event_def)

lemma draw_overlay_frame_outputs:
  "clipboard (draw_overlay_frame e s) = clipboard s"
  "console (draw_overlay_frame e s) = console s"
  "clipboard_opens (draw_overlay_frame e s) = clipboard_opens s"
  by (simp_all add: draw_overlay_frame_def ensure_resources_def Let_def)

lemma deliver_no_commit:
  assumes "ev \<noteq> MouseEvent HC_ACTION WM_LBUTTONDOWN"
  shows "clipboard (deliver e ev s) = clipboard s
       \<and> console (deliver e ev s) = console s
       \<and> clipboard_opens (deliver e ev s) = clipboard_opens s"
proof (cases ev)
  case (MouseEvent nCode wParam)
  with assms show ?thesis by (auto simp: deliver_def LowLevelMouseProc_def)
next
  case (KeyboardEvent nCode wParam vkCode)
  then show ?thesis
    by (simp add: deliver_def LowLevelKeyboardProc_def SetCursorPos_def PostQuitMessage_def
        Let_def)
next
  case (Message msg)
  then show ?thesis
    by (simp add: deliver_def WndProc_def PostQuitMessage_def draw_overlay_frame_outputs)
next
  case GetMessageFailed
  then show ?thesis by (simp add: deliver_def)
qed

lemma deliver_escape:
  assumes "wParam = WM_KEYDOWN \<or> wParam = WM_SYSKEYDOWN"
  shows "quit (deliver e (KeyboardEvent HC_ACTION wParam VK_ESCAPE) s) = Some 0"
  using assms
  by (auto simp: deliver_def LowLevelKeyboardProc_def PostQuitMessage_def Let_def vk_defs)

lemma LowLevelKeyboardProc_escape:
  assumes "wParam = WM_KEYDOWN \<or> wParam = WM_SYSKEYDOWN"
  shows "LowLevelKeyboardProc e HC_ACTION wParam VK_ESCAPE s = (1, s\<lparr>quit := Some 0\<rparr>)"
  using assms
  by (auto simp: LowLevelKeyboardProc_def PostQuitMessage_def Let_def vk_defs)

lemma message_loop_escape:
  assumes "MouseEvent HC_ACTION WM_LBUTTONDOWN \<notin> set pre"
    and "wParam = WM_KEYDOWN \<or> wParam = WM_SYSKEYDOWN"
  shows "fst (message_loop e (pre @ KeyboardEvent HC_ACTION wParam VK_ESCAPE # post) s)
       \<and> clipboard (snd (message_loop e (pre @ KeyboardEvent HC_ACTION wParam VK_ESCAPE # post) s))
           = clipboard s
       \<and> console (snd (message_loop e (pre @ KeyboardEvent HC_ACTION wParam VK_ESCAPE # post) s))
           = console s
       \<and> clipboard_opens
           (snd (message_loop e (pre @ KeyboardEvent HC_ACTION wParam VK_ESCAPE # post) s))
           = clipboard_opens s"
  using assms(1)
proof (induction pre arbitrary: s)
  case Nil
  have ne: "KeyboardEvent HC_ACTION wParam VK_ESCAPE \<noteq> MouseEvent HC_ACTION WM_LBUTTONDOWN"
    by simp
  show ?case
    using deliver_escape [OF assms(2), of e s] deliver_no_commit [OF ne, of e s]
    by (simp add: message_loop_quit)
next
  case (Cons ev pre)
  from Cons.prems have ne: "ev \<noteq> MouseEvent HC_ACTION WM_LBUTTONDOWN"
    and rest: "MouseEvent HC_ACTION WM_LBUTTONDOWN \<notin> set pre" by auto
  show ?case
  proof (cases "quit s \<noteq> None \<or> ev = GetMessageFailed")
    case True
    then show ?thesis by auto
  next
    case False
    then have step: "message_loop e ((ev # pre) @ KeyboardEvent HC_ACTION wParam VK_ESCAPE # post) s
        = message_loop e (pre @ KeyboardEvent HC_ACTION wParam VK_ESCAPE # post) (deliver e ev s)"
      by simp
    show ?thesis
      unfolding step using Cons.IH [OF rest, of "deliver e ev s"] deliver_no_commit [OF ne, of e s]
      by simp
  qed
qed

lemma release_resources_outputs:
  "clipboard (release_resources s) = clipboard s"
  "console (release_resources s) = console s"
  "clipboard_opens (release_resources s) = clipboard_opens s"
  by (simp_all add: release_resources_def Let_def)

text \<open>
  C6. When the window is created and an Escape key-down arrives with no left
  click before it, the hook swallows it and posts the quit message, the process
  exits with code 0, and the clipboard and the console are as they were at the
  start: \<^verbatim>\<open>OpenClipboard\<close> has not been called, so the commit path has not run.
\<close>

theorem escape_exits_without_commit:
  assumes "CreateWindowExW e"
    and "MouseEvent HC_ACTION WM_LBUTTONDOWN \<notin> set pre"
    and "wParam = WM_KEYDOWN \<or> wParam = WM_SYSKEYDOWN"
  shows "LowLevelKeyboardProc e HC_ACTION wParam VK_ESCAPE s = (1, s\<lparr>quit := Some 0\<rparr>)
       \<and> fst (wWinMain e (pre @ KeyboardEvent HC_ACTION wParam VK_ESCAPE # post) s) = Some 0
       \<and> clipboard (snd (wWinMain e (pre @ KeyboardEvent HC_ACTION wParam VK_ESCAPE # post) s))
           = clipboard s
       \<and> console (snd (wWinMain e (pre @ KeyboardEvent HC_ACTION wParam VK_ESCAPE # post) s))
           = console s
       \<and> clipboard_opens
           (snd (wWinMain e (pre @ KeyboardEvent HC_ACTION wParam VK_ESCAPE # post) s))
           = clipboard_opens s"
proof -
  define s3 where "s3 = (snd (WndProc e WM_CREATE (s\<lparr>g_hwnd := True\<rparr>)))
      \<lparr>g_mouseHook := SetWindowsHookExW_mouse e, mouse_hooked := SetWindowsHookExW_mouse e,
       g_keyboardHook := SetWindowsHookExW_keyboard e,
       keyboard_hooked := SetWindowsHookExW_keyboard e\<rparr>"
  define r where "r = message_loop e (pre @ KeyboardEvent HC_ACTION wParam VK_ESCAPE # post) s3"
  have s3: "clipboard s3 = clipboard s" "console s3 = console s"
    "clipboard_opens s3 = clipboard_opens s"
    by (simp_all add: s3_def WndProc_def)
  have w: "wWinMain e (pre @ KeyboardEvent HC_ACTION wParam VK_ESCAPE # post) s =
      (if fst r then (Some 0, release_resources (snd r)) else (None, snd r))"
    using assms(1) by (simp add: wWinMain_def Let_def r_def s3_def split: prod.splits)
  have l: "fst r \<and> clipboard (snd r) = clipboard s3 \<and> console (snd r) = console s3
      \<and> clipboard_opens (snd r) = clipboard_opens s3"
    unfolding r_def by (rule message_loop_escape [OF assms(2,3)])
  show ?thesis
    using l s3 LowLevelKeyboardProc_escape [OF assms(3), of e s]
    by (simp add: w release_resources_outputs)
qed

theorem escape_exits_without_commit_witness:
  "CreateWindowExW sample_os
   \<and> MouseEvent HC_ACTION WM_LBUTTONDOWN
        \<notin> set [Message WM_TIMER, KeyboardEvent HC_ACTION WM_KEYDOWN VK_RIGHT]
   \<and> (WM_KEYDOWN = WM_KEYDOWN \<or> WM_KEYDOWN = WM_SYSKEYDOWN)
   \<and> fst (wWinMain sample_os
        ([Message WM_TIMER, KeyboardEvent HC_ACTION WM_KEYDOWN VK_RIGHT]
         @ KeyboardEvent HC_ACTION WM_KEYDOWN VK_ESCAPE
         # [MouseEvent HC_ACTION WM_LBUTTONDOWN]) startup) = Some 0
   \<and> clipboard (snd (wWinMain sample_os
        ([Message WM_TIMER, KeyboardEvent HC_ACTION WM_KEYDOWN VK_RIGHT]
         @ KeyboardEvent HC_ACTION WM_KEYDOWN VK_ESCAPE
         # [MouseEvent HC_ACTION WM_LBUTTONDOWN]) startup)) = Some ''before''
   \<and> console (snd (wWinMain sample_os
        ([Message WM_TIMER, KeyboardEvent HC_ACTION WM_KEYDOWN VK_RIGHT]
         @ KeyboardEvent HC_ACTION WM_KEYDOWN VK_ESCAPE
         # [MouseEvent HC_ACTION WM_LBUTTONDOWN]) startup)) = []"
proof -
  have 1: "CreateWindowExW sample_os" by (simp add: sample_os_def)
  have 2: "MouseEvent HC_ACTION WM_LBUTTONDOWN
        \<notin> set [Message WM_TIMER, KeyboardEvent HC_ACTION WM_KEYDOWN VK_RIGHT]" by simp
  have 3: "WM_KEYDOWN = WM_KEYDOWN \<or> WM_KEYDOWN = WM_SYSKEYDOWN" by simp
  have 4: "clipboard startup = Some ''before''" "console startup = []"
    by (simp_all add: startup_def)
  from escape_exits_without_commit [OF 1 2 3, of startup "[MouseEvent HC_ACTION WM_LBUTTONDOWN]"]
    1 2 3 4 show ?thesis by simp
qed

end
